theory Spec2Isabelle
  imports Complex_Main
begin

section \<open>Exceptions and tensors\<close>

text \<open>
  Every exception the modelled Python code can raise is a value of \<open>error\<close>; a fallible
  operation returns \<open>error + 'a\<close> with \<open>Inl\<close> for the raised exception.
  \<open>TorchShapeError\<close> stands for the exception the tensor engine raises on a shape
  mismatch (reduction over an empty dimension, a boolean mask of the wrong length,
  operands that do not broadcast).
\<close>

datatype error =
    RuntimeError
  | NotImplementedError
  | TypeError
  | UnboundLocalError
  | IndexError
  | ZeroDivisionError
  | AssertionError
  | ValueError
  | KeyError
  | TorchShapeError

definition bind_err :: "error + 'a \<Rightarrow> ('a \<Rightarrow> error + 'b) \<Rightarrow> error + 'b" where
  "bind_err m f = (case m of Inl e \<Rightarrow> Inl e | Inr v \<Rightarrow> f v)"

fun map_err :: "('a \<Rightarrow> error + 'b) \<Rightarrow> 'a list \<Rightarrow> error + 'b list" where
  "map_err f [] = Inr []"
| "map_err f (x # xs) =
     (case f x of
        Inl e \<Rightarrow> Inl e
      | Inr v \<Rightarrow> (case map_err f xs of Inl e \<Rightarrow> Inl e | Inr vs \<Rightarrow> Inr (v # vs)))"

text \<open>
  A batch tensor is the list of its examples, each example flattened to the list of its
  coordinates; a logits tensor is the list of its rows (one row of class scores per
  example). Floating-point numbers are read as reals: the properties below are about
  control flow, shapes and raised exceptions, none of which depends on rounding.
  A label tensor is a list of class indices.
\<close>

type_synonym tensor = "real list list"
type_synonym labels = "int list"

definition tensor_add :: "tensor \<Rightarrow> tensor \<Rightarrow> tensor" where
  "tensor_add a b = map2 (map2 (+)) a b"

definition tensor_sub :: "tensor \<Rightarrow> tensor \<Rightarrow> tensor" where
  "tensor_sub a b = map2 (map2 (-)) a b"

definition tensor_scale :: "real \<Rightarrow> tensor \<Rightarrow> tensor" where
  "tensor_scale c a = map (map (\<lambda>v. v * c)) a"

definition tensor_sign :: "tensor \<Rightarrow> tensor" where
  "tensor_sign a = map (map sgn) a"

text \<open>\<open>torch.clamp(x, lo, hi)\<close> is \<open>min(max(x, lo), hi)\<close> coordinate by coordinate.\<close>

definition clamp :: "tensor \<Rightarrow> real \<times> real \<Rightarrow> tensor" where
  "clamp a b = map (map (\<lambda>v. min (max v (fst b)) (snd b))) a"

text \<open>
  Indexing with a boolean mask, \<open>t[mask]\<close>, keeps the entries whose mask bit is set; the
  tensor engine raises when the mask has another length than the indexed dimension.
\<close>

definition mask_select :: "'a list \<Rightarrow> bool list \<Rightarrow> error + 'a list" where
  "mask_select t m =
     (if length m = length t then Inr (map fst (filter snd (zip t m)))
      else Inl TorchShapeError)"

text \<open>
  \<open>argmax(dim=1)\<close>: per row, the index of the first maximal entry; a row without
  entries cannot be reduced.
\<close>

fun argmax_acc :: "nat \<Rightarrow> real \<Rightarrow> nat \<Rightarrow> real list \<Rightarrow> nat" where
  "argmax_acc best bv i [] = best"
| "argmax_acc best bv i (v # vs) =
     (if bv < v then argmax_acc i v (Suc i) vs else argmax_acc best bv (Suc i) vs)"

definition argmax_row :: "real list \<Rightarrow> error + int" where
  "argmax_row r =
     (case r of [] \<Rightarrow> Inl TorchShapeError | v # vs \<Rightarrow> Inr (int (argmax_acc 0 v 1 vs)))"

definition argmax_dim1 :: "tensor \<Rightarrow> error + labels" where
  "argmax_dim1 out = map_err argmax_row out"

text \<open>
  Elementwise \<open>a != b\<close> on one-dimensional tensors, with the engine's broadcasting: equal
  lengths compare position by position, a tensor of length one is repeated, anything else
  raises.
\<close>

definition tensor_ne :: "labels \<Rightarrow> labels \<Rightarrow> error + bool list" where
  "tensor_ne a b =
     (if length a = length b then Inr (map2 (\<lambda>u v. u \<noteq> v) a b)
      else if length a = 1 then Inr (map (\<lambda>v. hd a \<noteq> v) b)
      else if length b = 1 then Inr (map (\<lambda>u. u \<noteq> hd b) a)
      else Inl TorchShapeError)"

section \<open>Success predicates (attacks.py)\<close>

text \<open>
  \<^verbatim>\<open>def classification_untargeted_is_sucess(pred, label): return pred.argmax(dim=1) != label\<close>
  \<^verbatim>\<open>def classification_targeted_is_sucess(pred, label):   return pred.argmax(dim=1) != label\<close>
\<close>

definition classification_untargeted_is_sucess :: "tensor \<Rightarrow> labels \<Rightarrow> error + bool list" where
  "classification_untargeted_is_sucess pred label =
     bind_err (argmax_dim1 pred) (\<lambda>a. tensor_ne a label)"

definition classification_targeted_is_sucess :: "tensor \<Rightarrow> labels \<Rightarrow> error + bool list" where
  "classification_targeted_is_sucess pred label =
     bind_err (argmax_dim1 pred) (\<lambda>a. tensor_ne a label)"

section \<open>Attack base class (attacks.py)\<close>

text \<open>
  \<open>_predict_hard(predict, x)\<close> has two positional parameters and no defaults: it runs the
  model and takes the argmax over dimension 1. (The no-gradient mode it runs under is an
  effect of the autograd engine and has no counterpart in a pure model.)
\<close>

definition predict_hard :: "(tensor \<Rightarrow> tensor) \<Rightarrow> tensor \<Rightarrow> error + labels" where
  "predict_hard predict x = argmax_dim1 (predict x)"

text \<open>
  A Python callable used as predicted-label function, with the number of positional
  parameters it declares: \<open>LabelFn2 f\<close> is a function \<open>f(predict, x)\<close>, \<open>LabelFn1 f\<close> a
  function \<open>f(x)\<close>. The constructor stores the callable as an instance attribute, so it is
  not bound to the instance, and \<open>perturb\<close> calls it as \<open>self.get_predicted_label(x)\<close>:
  with exactly one positional argument. Calling a function of two required parameters
  with one argument raises \<open>TypeError\<close>.
\<close>

datatype label_fn =
    LabelFn1 "tensor \<Rightarrow> error + labels"
  | LabelFn2 "(tensor \<Rightarrow> tensor) \<Rightarrow> tensor \<Rightarrow> error + labels"

fun call_with_one_arg :: "label_fn \<Rightarrow> tensor \<Rightarrow> error + labels" where
  "call_with_one_arg (LabelFn1 f) x = f x"
| "call_with_one_arg (LabelFn2 f) x = Inl TypeError"

text \<open>
  The Python objects that the constructor's guard compares: \<open>self._perturb\<close> is a bound
  method, \<open>type(self._perturb)\<close> is the class of bound methods, \<open>Attack._perturb\<close> is a
  function object. Objects of different kinds are never equal.
\<close>

datatype py_obj =
    Function string
  | BoundMethod string
  | Class string

fun py_type :: "py_obj \<Rightarrow> py_obj" where
  "py_type (Function f) = Class ''function''"
| "py_type (BoundMethod f) = Class ''method''"
| "py_type (Class c) = Class ''type''"

text \<open>
  A loss callable: an ordinary loss \<open>(output, label)\<close>, or the closure \<open>carlini_loss\<close>
  that \<open>get_carlini_loss(targeted, confidence_threshold)\<close> returns, given by the two
  values it captures.
\<close>

datatype py_arg = ArgBool bool | ArgReal real

datatype loss_fn = LossFn "tensor \<Rightarrow> labels \<Rightarrow> real" | CarliniLoss py_arg py_arg

text \<open>
  A subclass of \<open>Attack\<close>: its name and, when it overrides \<open>_perturb\<close>, the body of the
  override (which receives the model of the instance, the input and the label).
\<close>

record attack_class =
  class_name :: string
  perturb_override :: "((tensor \<Rightarrow> tensor) \<Rightarrow> tensor \<Rightarrow> labels \<Rightarrow> error + tensor) option"

record attack =
  cls :: attack_class
  model :: "tensor \<Rightarrow> tensor"
  loss :: loss_fn
  clip_bounds :: "(real \<times> real) option"
  get_predicted_label :: label_fn
  is_success :: "tensor \<Rightarrow> labels \<Rightarrow> error + bool list"

text \<open>Attribute lookup \<open>self._perturb\<close> on an instance of the class: the override if any.\<close>

definition lookup_perturb :: "attack_class \<Rightarrow> py_obj" where
  "lookup_perturb c =
     (case perturb_override c of
        None \<Rightarrow> BoundMethod ''Attack._perturb''
      | Some f \<Rightarrow> BoundMethod (class_name c @ ''._perturb''))"

text \<open>
  \<open>Attack.__init__\<close>. The guard is \<open>type(self._perturb) == Attack._perturb\<close>. The default
  loss \<open>SoftmaxCrossEntropyLoss(reduction='sum', ignore_index=-1)\<close> is defined outside the
  modelled files and is the parameter \<open>default_loss\<close>.
\<close>

definition Attack_init ::
  "loss_fn \<Rightarrow> attack_class \<Rightarrow> (tensor \<Rightarrow> tensor) \<Rightarrow>
   loss_fn option \<Rightarrow> (real \<times> real) option \<Rightarrow>
   (tensor \<Rightarrow> labels \<Rightarrow> error + bool list) option \<Rightarrow> label_fn option \<Rightarrow> error + attack" where
  "Attack_init default_loss c m l cb is_s gpl =
     (if py_type (lookup_perturb c) = Function ''Attack._perturb'' then Inl RuntimeError
      else Inr \<lparr> cls = c,
                 model = m,
                 loss = (case l of None \<Rightarrow> default_loss | Some f \<Rightarrow> f),
                 clip_bounds = cb,
                 get_predicted_label = (case gpl of None \<Rightarrow> LabelFn2 predict_hard | Some g \<Rightarrow> g),
                 is_success = (case is_s of None \<Rightarrow> classification_untargeted_is_sucess
                               | Some s \<Rightarrow> s) \<rparr>)"

text \<open>\<open>self._perturb(x, y)\<close>: the override, or the base method, which raises.\<close>

definition Attack_perturb_step :: "attack \<Rightarrow> tensor \<Rightarrow> labels \<Rightarrow> error + tensor" where
  "Attack_perturb_step self x y =
     (case perturb_override (cls self) of
        None \<Rightarrow> Inl NotImplementedError
      | Some f \<Rightarrow> f (model self) x y)"

text \<open>
  \<open>Attack.perturb(x, y=None)\<close>. The result carries the adversarial input and the payload
  \<open>(x, y, x_adv)\<close> handed to the \<open>perturb_completed\<close> event.
\<close>

definition Attack_perturb ::
  "attack \<Rightarrow> tensor \<Rightarrow> labels option \<Rightarrow> error + (tensor \<times> (tensor \<times> labels \<times> tensor))" where
  "Attack_perturb self x y =
     bind_err (case y of None \<Rightarrow> call_with_one_arg (get_predicted_label self) x
               | Some y' \<Rightarrow> Inr y')
       (\<lambda>y'. bind_err (Attack_perturb_step self x y')
          (\<lambda>x_adv. let x_adv' = (case clip_bounds self of None \<Rightarrow> x_adv
                                  | Some b \<Rightarrow> clamp x_adv b)
                    in Inr (x_adv', (x, y', x_adv'))))"

section \<open>Formatting helpers\<close>

text \<open>
  \<open>str(n)\<close> and the format spec \<open>:x\<close> print an integer in base 10 and base 16;
  \<open>sep.join(strings)\<close> concatenates with a separator.
\<close>

definition digit_char :: "nat \<Rightarrow> char" where
  "digit_char d = ''0123456789abcdef'' ! d"

function str_base :: "nat \<Rightarrow> nat \<Rightarrow> string" where
  "str_base b n =
     (if b < 2 \<or> n < b then [digit_char n]
      else str_base b (n div b) @ [digit_char (n mod b)])"
  by pat_completeness auto
termination
  by (relation "measure snd") auto

definition str_int :: "int \<Rightarrow> string" where
  "str_int i = (if i < 0 then ''-'' @ str_base 10 (nat (- i)) else str_base 10 (nat i))"

definition hex_int :: "int \<Rightarrow> string" where
  "hex_int i = (if i < 0 then ''-'' @ str_base 16 (nat (- i)) else str_base 16 (nat i))"

fun join :: "string \<Rightarrow> string list \<Rightarrow> string" where
  "join sep [] = []"
| "join sep [s] = s"
| "join sep (s # t # ts) = s @ sep @ join sep (t # ts)"

section \<open>Datasets (dataset.py)\<close>

text \<open>
  A dataset object: the slots \<open>name\<close>, \<open>subset\<close>, \<open>modifiers\<close>, \<open>info\<close> of the class, and
  the two methods every subclass overrides, \<open>__len__\<close> and \<open>get_example\<close>, which close
  over the wrapped \<open>data\<close>. The slot \<open>subset\<close> is the field \<open>subset_tag\<close> here, and
  the property \<open>identifier\<close> is \<open>dataset_identifier\<close>.
\<close>

record 'a dataset =
  name :: string
  subset_tag :: "string option"
  modifiers :: "string list"
  info :: "(string \<times> string) list"
  len :: nat
  get_example :: "int \<Rightarrow> error + 'a"

text \<open>The keyword arguments a wrapper forwards to \<open>Dataset.__init__\<close>.\<close>

record kwargs =
  kw_name :: "string option"
  kw_subset :: "string option"
  kw_info :: "(string \<times> string) list option"

text \<open>The \<open>modifiers\<close> argument: absent, one string, or a list of strings.\<close>

datatype mods_arg = ModNone | ModStr string | ModList "string list"

text \<open>
  \<open>Dataset.__init__\<close> for a wrapper whose \<open>data\<close> is a dataset. \<open>a or b\<close> takes \<open>b\<close> when
  \<open>a\<close> is \<open>None\<close> or empty; \<open>if modifiers:\<close> skips an absent or empty argument.
\<close>

definition Dataset_init ::
  "kwargs \<Rightarrow> mods_arg \<Rightarrow> 'b dataset \<Rightarrow> nat \<Rightarrow> (int \<Rightarrow> error + 'a) \<Rightarrow> 'a dataset" where
  "Dataset_init kw mods data n get =
     \<lparr> name = (case kw_name kw of None \<Rightarrow> name data
                | Some s \<Rightarrow> if s = [] then name data else s),
       subset_tag = (case kw_subset kw of None \<Rightarrow> subset_tag data
                     | Some s \<Rightarrow> if s = [] then subset_tag data else Some s),
       modifiers = modifiers data @
                   (case mods of ModNone \<Rightarrow> []
                    | ModStr s \<Rightarrow> if s = [] then [] else [s]
                    | ModList ss \<Rightarrow> ss),
       info = (case kw_info kw of None \<Rightarrow> info data
               | Some i \<Rightarrow> if i = [] then info data else i),
       len = n,
       get_example = get \<rparr>"

text \<open>
  \<^verbatim>\<open>fn = self.name\<close>
  \<^verbatim>\<open>if self.subset: fn += '-' + self.subset\<close>
  \<^verbatim>\<open>if len(self.modifiers) > 0: fn += '.' + '.'.join(self.modifiers)\<close>
\<close>

definition dataset_identifier :: "'a dataset \<Rightarrow> string" where
  "dataset_identifier d =
     name d
     @ (case subset_tag d of None \<Rightarrow> [] | Some s \<Rightarrow> if s = [] then [] else ''-'' @ s)
     @ (if length (modifiers d) > 0 then ''.'' @ join ''.'' (modifiers d) else [])"

text \<open>\<open>Dataset.__getitem__\<close> at an integer index.\<close>

definition getitem :: "'a dataset \<Rightarrow> int \<Rightarrow> error + 'a" where
  "getitem d idx =
     (let i = (if idx < 0 then idx + int (len d) else idx)
      in if i < 0 \<or> i \<ge> int (len d) then Inl IndexError else get_example d i)"

text \<open>
  \<open>_compress_indices\<close> stores the indices in the smallest unsigned integer type that holds
  \<open>max\<close>; an index that does not fit wraps around.
\<close>

definition compress_indices :: "int list \<Rightarrow> nat \<Rightarrow> int list" where
  "compress_indices indices mx =
     (if mx \<le> 2 ^ 8 - 1 then map (\<lambda>i. i mod 2 ^ 8) indices
      else if mx \<le> 2 ^ 16 - 1 then map (\<lambda>i. i mod 2 ^ 16) indices
      else if mx \<le> 2 ^ 32 - 1 then map (\<lambda>i. i mod 2 ^ 32) indices
      else if mx \<le> 2 ^ 64 - 1 then map (\<lambda>i. i mod 2 ^ 64) indices
      else indices)"

text \<open>
  \<open>_subset_hash(indices) = hash(tuple(indices)) % 16 ** 5\<close>. The interpreter's tuple hash
  is the parameter \<open>py_hash\<close>.
\<close>

definition subset_hash :: "(int list \<Rightarrow> int) \<Rightarrow> int list \<Rightarrow> int" where
  "subset_hash py_hash indices = py_hash indices mod 16 ^ 5"

text \<open>
  \<open>SubDataset.__init__\<close> for a sequence of indices (the branch \<open>permute\<close> and \<open>filter\<close>
  take). The default modifier is computed first;
  \<open>kwargs['modifiers'] = kwargs.pop('modifiers', modifier)\<close> keeps a modifier the caller
  passed.
\<close>

definition SubDataset_init ::
  "(int list \<Rightarrow> int) \<Rightarrow> 'a dataset \<Rightarrow> int list \<Rightarrow> mods_arg option \<Rightarrow> kwargs \<Rightarrow> 'a dataset" where
  "SubDataset_init py_hash ds indices mods kw =
     (let n = length indices;
          indices' = compress_indices indices (len ds);
          modifier = ''[indices_'' @ hex_int (subset_hash py_hash indices') @ '']''
      in Dataset_init kw (case mods of None \<Rightarrow> ModStr modifier | Some m \<Rightarrow> m) ds n
           (\<lambda>i. if 0 \<le> i \<and> i < int n then getitem ds (indices' ! nat i)
                 else Inl IndexError))"

text \<open>
  \<^verbatim>\<open>def permute(self, seed=53, **kwargs):\<close>
  \<^verbatim>\<open>    indices = np.random.RandomState(seed=seed).permutation(len(self))\<close>
  \<^verbatim>\<open>    return SubDataset(self, indices, modifiers="permute({seed})", **kwargs)\<close>
  The modifier is a plain string literal, not a formatted one. The generator's
  permutation is the parameter \<open>rs_permutation\<close> (seed, length).
\<close>

definition permute ::
  "(int list \<Rightarrow> int) \<Rightarrow> (int \<Rightarrow> nat \<Rightarrow> int list) \<Rightarrow> 'a dataset \<Rightarrow> int \<Rightarrow> kwargs \<Rightarrow> 'a dataset" where
  "permute py_hash rs_permutation self seed kw =
     SubDataset_init py_hash self (rs_permutation seed (len self))
       (Some (ModStr ''permute({seed})'')) kw"

text \<open>
  \<open>SampleDataset.__init__\<close>. \<open>debug\<close> is the interpreter's \<open>__debug__\<close>: \<open>assert\<close> statements
  run unless the interpreter was started with \<open>-O\<close>. Lengths are natural numbers.
  \<open>rs_randints\<close> (seed, n) is the list of \<open>n\<close> draws \<open>rand.randint(0, n)\<close>. The stored
  \<open>get_example\<close> is \<open>self.data[self._indices(idx)]\<close>, which calls the index array
  instead of subscripting it.
\<close>

definition SampleDataset_init ::
  "bool \<Rightarrow> (int \<Rightarrow> nat \<Rightarrow> int list) \<Rightarrow> (int \<Rightarrow> nat \<Rightarrow> int list) \<Rightarrow> 'a dataset \<Rightarrow>
   nat option \<Rightarrow> bool \<Rightarrow> int \<Rightarrow> kwargs \<Rightarrow> error + 'a dataset" where
  "SampleDataset_init debug rs_permutation rs_randints ds length_arg replace seed kw =
     (let n = len ds;
          l = (case length_arg of None \<Rightarrow> n | Some k \<Rightarrow> if k = 0 then n else k)
      in if debug \<and> \<not> (replace \<or> l \<le> n) then Inl AssertionError
         else if \<not> replace \<and> l > n then Inl ValueError
         else
           let indices = (if replace then rs_randints seed n
                          else take l (rs_permutation seed n));
               indices' = compress_indices indices n;
               args = str_int seed @ '','' @ str_int (int l);
               modifier = ''sample'' @ (if replace then ''_r'' else []) @ ''('' @ args @ '')''
           in Inr (Dataset_init kw (ModStr modifier) ds (if l = 0 then n else l)
                     (\<lambda>i. Inl TypeError)))"

text \<open>\<open>Dataset.sample(length, replace=False, seed=53, **kwargs)\<close>.\<close>

definition sample ::
  "bool \<Rightarrow> (int \<Rightarrow> nat \<Rightarrow> int list) \<Rightarrow> (int \<Rightarrow> nat \<Rightarrow> int list) \<Rightarrow> 'a dataset \<Rightarrow>
   nat \<Rightarrow> bool \<Rightarrow> int \<Rightarrow> kwargs \<Rightarrow> error + 'a dataset" where
  "sample debug rs_permutation rs_randints self length_arg replace seed kw =
     SampleDataset_init debug rs_permutation rs_randints self (Some length_arg) replace seed kw"

section \<open>Per-example disk cache (dataset.py, HDDCacheDataset)\<close>

text \<open>
  The disk: a file holds the pickle of a value, or bytes that \<open>pickle.load\<close> rejects.
  Every removal and every write is also appended to \<open>ops\<close>, the trace of the
  operations that changed the disk.
\<close>

datatype 'a cache_file = Pickled 'a | Corrupt

datatype 'a fs_op = Remove string | Write string 'a

record 'a disk =
  files :: "string \<rightharpoonup> 'a cache_file"
  ops :: "'a fs_op list"

definition os_remove :: "string \<Rightarrow> 'a disk \<Rightarrow> 'a disk" where
  "os_remove path d = d\<lparr> files := (files d)(path := None), ops := ops d @ [Remove path] \<rparr>"

definition pickle_dump :: "string \<Rightarrow> 'a \<Rightarrow> 'a disk \<Rightarrow> 'a disk" where
  "pickle_dump path v d =
     d\<lparr> files := (files d)(path \<mapsto> Pickled v), ops := ops d @ [Write path v] \<rparr>"

text \<open>
  The cache object: the wrapped dataset \<open>data\<close> and the slots \<open>cache_dir\<close> (the directory
  given to the constructor joined with the identifier of the cache), \<open>separate_fields\<close>
  and \<open>keys\<close>. \<open>get_field\<close> is \<open>example[field]\<close> on the examples of the wrapped dataset
  (records, defined outside the modelled files).
\<close>

record 'a hdd_cache =
  data :: "'a dataset"
  cache_dir :: string
  separate_fields :: bool
  keys :: "string list"
  get_field :: "'a \<Rightarrow> string \<Rightarrow> error + 'a"

text \<open>
  \<^verbatim>\<open>path = f"{self.cache_dir}/{idx}"\<close>
  \<^verbatim>\<open>return f"{path}_{field}.p" if field else path + '.p'\<close>
\<close>

definition get_cache_path :: "'a hdd_cache \<Rightarrow> int \<Rightarrow> string option \<Rightarrow> string" where
  "get_cache_path self idx field =
     (let path = cache_dir self @ ''/'' @ str_int idx
      in case field of
           None \<Rightarrow> path @ ''.p''
         | Some f \<Rightarrow> if f = [] then path @ ''.p'' else path @ ''_'' @ f @ ''.p'')"

text \<open>
  \<open>_get_example_or_field\<close>: a readable cache file is returned as it is; an unreadable one
  is removed under the bare \<open>except\<close>, and the code falls through to recomputing the
  example from the wrapped dataset and writing it. The disk is returned also when the
  wrapped dataset raises.
\<close>

definition get_example_or_field ::
  "'a hdd_cache \<Rightarrow> 'a disk \<Rightarrow> int \<Rightarrow> string option \<Rightarrow> (error + 'a) \<times> 'a disk" where
  "get_example_or_field self d idx field =
     (let cache_path = get_cache_path self idx field;
          recompute = (\<lambda>d'.
            case getitem (data self) idx of
              Inl e \<Rightarrow> (Inl e, d')
            | Inr example \<Rightarrow>
                (case (case field of None \<Rightarrow> Inr example
                       | Some f \<Rightarrow> get_field self example f) of
                   Inl e \<Rightarrow> (Inl e, d')
                 | Inr v \<Rightarrow> (Inr v, pickle_dump cache_path v d')))
      in case files d cache_path of
           None \<Rightarrow> recompute d
         | Some (Pickled v) \<Rightarrow> (Inr v, d)
         | Some Corrupt \<Rightarrow> recompute (os_remove cache_path d))"

text \<open>
  \<open>get_example\<close>: with \<open>separate_fields\<close> the result is a record of lazy fields, one per
  key \<open>k\<close>, named \<open>k_\<close>, each a closure that calls \<open>_get_example_or_field(idx, k)\<close> when the
  field is read; nothing is read from the disk before that. Without it the example is
  read at once.
\<close>

datatype 'a cached_example = Whole 'a | LazyFields "(string \<times> int \<times> string) list"

definition hdd_get_example ::
  "'a hdd_cache \<Rightarrow> 'a disk \<Rightarrow> int \<Rightarrow> (error + 'a cached_example) \<times> 'a disk" where
  "hdd_get_example self d idx =
     (if separate_fields self
      then (Inr (LazyFields (map (\<lambda>k. (k @ ''_'', idx, k)) (keys self))), d)
      else (case get_example_or_field self d idx None of
              (Inl e, d') \<Rightarrow> (Inl e, d')
            | (Inr v, d') \<Rightarrow> (Inr (Whole v), d')))"

text \<open>Reading a lazy field of such a record.\<close>

definition force_field ::
  "'a hdd_cache \<Rightarrow> 'a disk \<Rightarrow> int \<times> string \<Rightarrow> (error + 'a) \<times> 'a disk" where
  "force_field self d thunk = get_example_or_field self d (fst thunk) (Some (snd thunk))"

text \<open>
  \<open>self[idx]\<close> on the cache: the inherited \<open>__getitem__\<close>, with \<open>len(self)\<close> the length
  of the wrapped dataset.
\<close>

definition hdd_getitem ::
  "'a hdd_cache \<Rightarrow> 'a disk \<Rightarrow> int \<Rightarrow> (error + 'a cached_example) \<times> 'a disk" where
  "hdd_getitem self d idx =
     (let n = int (len (data self));
          i = (if idx < 0 then idx + n else idx)
      in if i < 0 \<or> i \<ge> n then (Inl IndexError, d) else hdd_get_example self d i)"

section \<open>Iterative perturbation (attacks.py, perturb_iterative)\<close>

text \<open>
  The order \<open>p\<close> of the norm is \<open>np.inf\<close> or a number. \<open>grad_preprocessing\<close> is a string
  that the function replaces by a closure when it is \<open>'sign'\<close> or \<open>'normalize'\<close> and
  leaves alone otherwise, or a callable the caller passed; calling a string raises
  \<open>TypeError\<close>.
\<close>

datatype p_norm = PInf | PNum real

datatype grad_preprocessing = GPName string | GPCallable "tensor \<Rightarrow> tensor"

text \<open>
  The functions of the \<open>ops.batch\<close> module, defined outside the modelled files:
  \<open>batch_norm g p\<close> is \<open>ops.batch.norm(g, p, keep_dims=True)\<close>, one norm per example.
\<close>

record torch_ops =
  batch_norm :: "tensor \<Rightarrow> p_norm \<Rightarrow> real list"
  project_to_p_ball :: "tensor \<Rightarrow> real \<Rightarrow> p_norm \<Rightarrow> tensor"

definition apply_grad_preprocessing ::
  "torch_ops \<Rightarrow> grad_preprocessing \<Rightarrow> p_norm \<Rightarrow> tensor \<Rightarrow> error + tensor" where
  "apply_grad_preprocessing T gp p g =
     (case gp of
        GPCallable f \<Rightarrow> Inr (f g)
      | GPName s \<Rightarrow>
          if s = ''sign'' then Inr (tensor_sign g)
          else if s = ''normalize''
            then Inr (map2 (\<lambda>row n. map (\<lambda>v. v / n) row) g (batch_norm T g p))
          else Inl TypeError)"

text \<open>
  The arguments that stay fixed during the loop. \<open>loss_backward x y delta g\<close> is the value
  of \<open>delta.grad\<close> after \<open>loss_fn(predict(x + delta), y).backward()\<close> when it was \<open>g\<close>
  before: the loss and the autograd engine are external, and the accumulator is handed to
  them as it stands.
\<close>

record pgd_args =
  predict :: "tensor \<Rightarrow> tensor"
  eps :: real
  step_size :: real
  loss_backward :: "tensor \<Rightarrow> labels \<Rightarrow> tensor \<Rightarrow> tensor option \<Rightarrow> tensor"
  grad_pre :: grad_preprocessing
  p_order :: p_norm
  clip :: "(real \<times> real) option"
  is_success_for_stopping :: "(tensor \<Rightarrow> labels \<Rightarrow> error + bool list) option"
  tops :: torch_ops

text \<open>
  The local variables of the loop. The Python list \<open>deltas\<close> always ends with the tensor
  object the variable \<open>delta\<close> is bound to, which the loop updates in place; the field
  \<open>deltas\<close> holds the earlier objects, which are no longer updated, and \<open>cur_delta\<close>
  the live one. \<open>delta_grad\<close> is the \<open>grad\<close> attribute of the live object.
  \<open>forward_passes\<close> counts the iterations entered; it is not a variable of the code.
\<close>

record pgd_state =
  cur_x :: tensor
  cur_y :: labels
  cur_delta :: tensor
  delta_grad :: "tensor option"
  xs :: "tensor list"
  ys :: "labels list"
  deltas :: "tensor list"
  successes :: "bool list list"
  origins :: "nat list list"
  origin :: "nat list"
  forward_passes :: nat

text \<open>
  \<open>update_times\<close>: the only step that can fail is the division by \<open>len(deltas[0])\<close> in
  \<^verbatim>\<open>100 * len(deltas[min((0, len(deltas) - 2))]) / len(deltas[0])\<close>
  (the index \<open>min((0, len(deltas) - 2))\<close> is \<open>0\<close> or \<open>-1\<close> and always valid). The
  measured times themselves are not modelled.
\<close>

definition update_times :: "pgd_state \<Rightarrow> error + unit" where
  "update_times s =
     (if length (hd (deltas s @ [cur_delta s])) = 0 then Inl ZeroDivisionError else Inr ())"

text \<open>
  The early-stopping block of one iteration. It returns the state, the gradient the update
  will use, and whether the loop breaks.
\<close>

definition pgd_filter ::
  "(tensor \<Rightarrow> labels \<Rightarrow> error + bool list) \<Rightarrow> tensor \<Rightarrow> tensor \<Rightarrow> pgd_state \<Rightarrow>
   error + (pgd_state \<times> tensor \<times> bool)" where
  "pgd_filter is_s pred grad s =
     bind_err (is_s pred (cur_y s)) (\<lambda>success.
       let fail = map Not success in
       if list_all id fail then Inr (s, grad, False)
       else
         bind_err (mask_select (origin s) fail) (\<lambda>origin'.
         bind_err (mask_select (cur_x s) fail) (\<lambda>x'.
         bind_err (mask_select (cur_y s) fail) (\<lambda>y'.
         bind_err (mask_select (cur_delta s) fail) (\<lambda>delta'.
         bind_err (mask_select grad fail) (\<lambda>grad'.
           Inr (s\<lparr> successes := successes s @ [success],
                    origin := origin',
                    origins := origins s @ [origin'],
                    cur_x := x',
                    cur_y := y',
                    deltas := deltas s @ [cur_delta s],
                    cur_delta := delta',
                    delta_grad := None,
                    xs := xs s @ [x'],
                    ys := ys s @ [y'] \<rparr>,
                grad', list_all id success)))))))"

text \<open>The update block of one iteration, under \<open>torch.no_grad()\<close>.\<close>

definition pgd_update :: "pgd_args \<Rightarrow> tensor \<Rightarrow> pgd_state \<Rightarrow> error + pgd_state" where
  "pgd_update A grad s =
     bind_err (apply_grad_preprocessing (tops A) (grad_pre A) (p_order A) grad) (\<lambda>pgrad.
       case p_order A of
         PInf \<Rightarrow>
           let d1 = tensor_add (cur_delta s) (tensor_scale (step_size A) pgrad);
               d2 = project_to_p_ball (tops A) d1 (eps A) PInf;
               d3 = (case clip A of None \<Rightarrow> d2
                     | Some b \<Rightarrow> tensor_sub (clamp (tensor_add (cur_x s) d2) b) (cur_x s))
           in Inr (s\<lparr> cur_delta := d3 \<rparr>)
       | PNum r \<Rightarrow>
           if r = 1 \<or> r = 2 then Inl NotImplementedError
           else Inl NotImplementedError)"

text \<open>One iteration of the \<open>for\<close> loop; the flag tells whether it ended in \<open>break\<close>.\<close>

definition pgd_step :: "pgd_args \<Rightarrow> pgd_state \<Rightarrow> error + (pgd_state \<times> bool)" where
  "pgd_step A s =
     (let pred = predict A (tensor_add (cur_x s) (cur_delta s));
          g = loss_backward A (cur_x s) (cur_y s) (cur_delta s) (delta_grad s);
          s1 = s\<lparr> delta_grad := Some g, forward_passes := Suc (forward_passes s) \<rparr>
      in bind_err (case is_success_for_stopping A of
                     None \<Rightarrow> Inr (s1, g, False)
                   | Some is_s \<Rightarrow> pgd_filter is_s pred g s1)
           (\<lambda>(s2, grad, brk).
              if brk then bind_err (update_times s2) (\<lambda>u. Inr (s2, True))
              else
                bind_err (pgd_update A grad s2) (\<lambda>s3.
                  case is_success_for_stopping A of
                    None \<Rightarrow> Inr (s3, False)
                  | Some is_s \<Rightarrow> bind_err (update_times s3) (\<lambda>u. Inr (s3, False)))))"

fun pgd_loop :: "pgd_args \<Rightarrow> nat \<Rightarrow> pgd_state \<Rightarrow> error + (pgd_state \<times> bool)" where
  "pgd_loop A 0 s = Inr (s, False)"
| "pgd_loop A (Suc n) s =
     bind_err (pgd_step A s) (\<lambda>(s', brk). if brk then Inr (s', True) else pgd_loop A n s')"

text \<open>
  After the loop, with early stopping:
  \<^verbatim>\<open>successes[-1].fill_(True)\<close>
  \<^verbatim>\<open>x, delta = xs.pop(0), deltas.pop(0)\<close>
  \<^verbatim>\<open>for i in range(len(successes) - 1):\<close>
  \<^verbatim>\<open>    indices = origins[i][successes[i + 1]]\<close>
  \<^verbatim>\<open>    delta[indices] = deltas[i][successes[i + 1]]\<close>
\<close>

definition scatter :: "tensor \<Rightarrow> nat list \<Rightarrow> tensor \<Rightarrow> tensor" where
  "scatter delta indices vals = fold (\<lambda>(i, v) d. d[i := v]) (zip indices vals) delta"

fun pgd_gather_loop ::
  "nat list \<Rightarrow> nat list list \<Rightarrow> bool list list \<Rightarrow> tensor list \<Rightarrow> tensor \<Rightarrow> error + tensor" where
  "pgd_gather_loop [] orig succ ds delta = Inr delta"
| "pgd_gather_loop (i # is) orig succ ds delta =
     bind_err (mask_select (orig ! i) (succ ! Suc i)) (\<lambda>indices.
     bind_err (mask_select (ds ! i) (succ ! Suc i)) (\<lambda>vals.
       pgd_gather_loop is orig succ ds (scatter delta indices vals)))"

definition pgd_gather :: "pgd_state \<Rightarrow> error + (tensor \<times> tensor)" where
  "pgd_gather s =
     (if successes s = [] then Inl IndexError
      else
        let succ = butlast (successes s) @ [map (\<lambda>b. True) (last (successes s))];
            all_deltas = deltas s @ [cur_delta s]
        in bind_err (pgd_gather_loop [0 ..< length succ - 1] (origins s) succ
                       (tl all_deltas) (hd all_deltas))
             (\<lambda>delta. Inr (hd (xs s), delta)))"

text \<open>
  \<open>perturb_iterative\<close>. The \<open>else\<close> clause of the \<open>for\<close> loop runs when the loop ends
  without \<open>break\<close> and executes \<open>step += 1\<close>; the loop variable \<open>step\<close> is bound by the
  first iteration only. The result is the returned tensor together with the number of
  iterations entered.
\<close>

definition perturb_iterative ::
  "torch_ops \<Rightarrow> tensor \<Rightarrow> labels \<Rightarrow> (tensor \<Rightarrow> tensor) \<Rightarrow> nat \<Rightarrow> real \<Rightarrow> real \<Rightarrow>
   (tensor \<Rightarrow> labels \<Rightarrow> tensor \<Rightarrow> tensor option \<Rightarrow> tensor) \<Rightarrow> grad_preprocessing \<Rightarrow>
   tensor option \<Rightarrow> p_norm \<Rightarrow> (real \<times> real) option \<Rightarrow>
   (tensor \<Rightarrow> labels \<Rightarrow> error + bool list) option \<Rightarrow> error + (tensor \<times> nat)" where
  "perturb_iterative T x y pr step_count e ss lb gp delta_init p cb is_s =
     (let A = \<lparr> predict = pr, eps = e, step_size = ss, loss_backward = lb, grad_pre = gp,
                p_order = p, clip = cb, is_success_for_stopping = is_s, tops = T \<rparr>;
          delta = (case delta_init of None \<Rightarrow> map (map (\<lambda>v. 0)) x | Some d \<Rightarrow> d);
          s0 = \<lparr> cur_x = x, cur_y = y, cur_delta = delta, delta_grad = None,
                 xs = [x], ys = [y], deltas = [], successes = [], origins = [],
                 origin = [0 ..< length x], forward_passes = 0 \<rparr>
      in bind_err (pgd_loop A step_count s0) (\<lambda>(s, brk).
         bind_err (if \<not> brk \<and> step_count = 0 then Inl UnboundLocalError else Inr ()) (\<lambda>u.
         bind_err (case is_s of None \<Rightarrow> Inr (cur_x s, cur_delta s)
                   | Some f \<Rightarrow> pgd_gather s) (\<lambda>(x', delta').
           Inr (case cb of None \<Rightarrow> tensor_add x' delta'
                | Some b \<Rightarrow> clamp (tensor_add x' delta') b,
                forward_passes s)))))"

section \<open>Carlini-Wagner attack constructor (attacks.py)\<close>

text \<open>
  \<open>get_carlini_loss(targeted, confidence_threshold)\<close> declares two positional parameters
  without defaults; it is modelled on the list of the arguments of a call.
\<close>

fun get_carlini_loss :: "py_arg list \<Rightarrow> error + loss_fn" where
  "get_carlini_loss [targeted, confidence_threshold] =
     Inr (CarliniLoss targeted confidence_threshold)"
| "get_carlini_loss args = Inl TypeError"

text \<open>The keyword parameters of the constructor that the base class does not take.\<close>

record cw_config =
  distance_fn :: "tensor \<Rightarrow> tensor \<Rightarrow> real list"
  num_classes :: "nat option"
  confidence :: real
  learning_rate :: real
  binary_search_steps :: nat
  max_iter :: nat
  abort_early :: bool
  initial_const :: real

record cw_attack =
  cw_base :: attack
  cw_config :: cw_config
  repeat :: bool

text \<open>
  The class overrides \<open>_perturb\<close>; \<open>body\<close> is that override.
\<close>

definition CarliniWagnerL2Attack_class ::
  "((tensor \<Rightarrow> tensor) \<Rightarrow> tensor \<Rightarrow> labels \<Rightarrow> error + tensor) \<Rightarrow> attack_class" where
  "CarliniWagnerL2Attack_class body =
     \<lparr> class_name = ''CarliniWagnerL2Attack'', perturb_override = Some body \<rparr>"

text \<open>
  \<^verbatim>\<open>if loss is not None: raise NotImplementedError(...)\<close>
  \<^verbatim>\<open>loss = loss or get_carlini_loss()\<close>
  \<^verbatim>\<open>super().__init__(model, loss, clip_bounds, is_success, get_predicted_label)\<close>
  followed by the attribute assignments; \<open>REPEAT_STEP = 10\<close>.
\<close>

definition CarliniWagnerL2Attack_init ::
  "loss_fn \<Rightarrow> ((tensor \<Rightarrow> tensor) \<Rightarrow> tensor \<Rightarrow> labels \<Rightarrow> error + tensor) \<Rightarrow>
   (tensor \<Rightarrow> tensor) \<Rightarrow> loss_fn option \<Rightarrow> (real \<times> real) option \<Rightarrow>
   (tensor \<Rightarrow> labels \<Rightarrow> error + bool list) option \<Rightarrow> label_fn option \<Rightarrow> cw_config \<Rightarrow>
   error + cw_attack" where
  "CarliniWagnerL2Attack_init default_loss body m l cb is_s gpl cfg =
     (case l of
        Some f \<Rightarrow> Inl NotImplementedError
      | None \<Rightarrow>
          bind_err (get_carlini_loss []) (\<lambda>l'.
          bind_err (Attack_init default_loss (CarliniWagnerL2Attack_class body) m (Some l')
                      cb is_s gpl) (\<lambda>a.
            Inr \<lparr> cw_base = a, cw_config = cfg,
                   repeat = (binary_search_steps cfg \<ge> 10) \<rparr>)))"

section \<open>Concrete inputs\<close>

text \<open>Small concrete values on which the theorems below are evaluated.\<close>

definition id_model :: "tensor \<Rightarrow> tensor" where
  "id_model x = x"

definition always_success :: "tensor \<Rightarrow> labels \<Rightarrow> error + bool list" where
  "always_success pred y = Inr (map (\<lambda>l. True) y)"

definition zero_backward :: "tensor \<Rightarrow> labels \<Rightarrow> tensor \<Rightarrow> tensor option \<Rightarrow> tensor" where
  "zero_backward x y delta g = map (map (\<lambda>v. 0)) delta"

definition clamp_ops :: torch_ops where
  "clamp_ops = \<lparr> batch_norm = (\<lambda>g p. map (\<lambda>row. 1) g),
                 project_to_p_ball = (\<lambda>d e p. clamp d (- e, e)) \<rparr>"

definition no_kwargs :: kwargs where
  "no_kwargs = \<lparr> kw_name = None, kw_subset = None, kw_info = None \<rparr>"

definition three_examples :: "int dataset" where
  "three_examples =
     \<lparr> name = ''D'', subset_tag = None, modifiers = [], info = [], len = 3,
       get_example = (\<lambda>i. Inr (i + 10)) \<rparr>"

definition sum_hash :: "int list \<Rightarrow> int" where
  "sum_hash indices = sum_list indices"

definition shift_permutation :: "int \<Rightarrow> nat \<Rightarrow> int list" where
  "shift_permutation seed n = map (\<lambda>i. (int i + seed) mod int n) [0 ..< n]"

definition three_cached :: "int hdd_cache" where
  "three_cached =
     \<lparr> data = three_examples, cache_dir = ''c/D.cache_hdd'', separate_fields = False,
       keys = [], get_field = (\<lambda>example field. Inl KeyError) \<rparr>"

definition damaged_disk :: "int disk" where
  "damaged_disk =
     \<lparr> files = [''c/D.cache_hdd/0.p'' \<mapsto> Pickled 10, ''c/D.cache_hdd/1.p'' \<mapsto> Corrupt],
       ops = [] \<rparr>"

section \<open>Shared lemmas\<close>

lemma Attack_init_Inr:
  "Attack_init dl c m l cb s g =
     Inr \<lparr> cls = c, model = m, loss = (case l of None \<Rightarrow> dl | Some f \<Rightarrow> f),
           clip_bounds = cb,
           get_predicted_label = (case g of None \<Rightarrow> LabelFn2 predict_hard | Some h \<Rightarrow> h),
           is_success = (case s of None \<Rightarrow> classification_untargeted_is_sucess
                         | Some t \<Rightarrow> t) \<rparr>"
  by (cases "perturb_override c") (simp_all add: Attack_init_def lookup_perturb_def)

lemma mask_select_all_false:
  "length t = length x \<Longrightarrow> mask_select t (map Not (map (\<lambda>b. True) x)) = Inr []"
  by (auto simp: mask_select_def filter_empty_conv set_zip)

lemma pgd_filter_all_success:
  assumes "x \<noteq> []" and "is_s pred (cur_y s) = Inr (map (\<lambda>b. True) x)"
    and "length (origin s) = length x" and "length (cur_x s) = length x"
    and "length (cur_y s) = length x" and "length (cur_delta s) = length x"
    and "length grad = length x"
  shows "pgd_filter is_s pred grad s =
           Inr (s\<lparr> successes := successes s @ [map (\<lambda>b. True) x],
                    origin := [], origins := origins s @ [[]], cur_x := [], cur_y := [],
                    deltas := deltas s @ [cur_delta s], cur_delta := [], delta_grad := None,
                    xs := xs s @ [[]], ys := ys s @ [[]] \<rparr>, [], True)"
proof -
  have nf: "\<not> list_all id (map Not (map (\<lambda>b. True) x))"
    using assms(1) by (cases x) simp_all
  have al: "list_all id (map (\<lambda>b. True) x)"
    by (simp add: list_all_iff)
  show ?thesis
    using assms(2-) nf al
    by (simp add: pgd_filter_def bind_err_def mask_select_all_false del: map_map)
qed

lemma pgd_first_step_all_success:
  assumes "x \<noteq> []" and "length y = length x" and "length dl = length x"
    and "length (lb x y dl None) = length x"
    and "f (pr (tensor_add x dl)) y = Inr (map (\<lambda>b. True) x)"
    and "is_success_for_stopping A = Some f" and "predict A = pr" and "loss_backward A = lb"
    and "s0 = \<lparr> cur_x = x, cur_y = y, cur_delta = dl, delta_grad = None,
                 xs = [x], ys = [y], deltas = [], successes = [], origins = [],
                 origin = [0 ..< length x], forward_passes = 0 \<rparr>"
  shows "pgd_step A s0 =
           Inr (\<lparr> cur_x = [], cur_y = [], cur_delta = [], delta_grad = None,
                  xs = [x, []], ys = [y, []], deltas = [dl],
                  successes = [map (\<lambda>b. True) x], origins = [[]],
                  origin = [], forward_passes = Suc 0 \<rparr>, True)"
proof -
  let ?s1 = "s0\<lparr> delta_grad := Some (lb x y dl None), forward_passes := Suc 0 \<rparr>"
  have f: "pgd_filter f (pr (tensor_add x dl)) (lb x y dl None) ?s1 =
           Inr (?s1\<lparr> successes := successes ?s1 @ [map (\<lambda>b. True) x],
                    origin := [], origins := origins ?s1 @ [[]], cur_x := [], cur_y := [],
                    deltas := deltas ?s1 @ [cur_delta ?s1], cur_delta := [], delta_grad := None,
                    xs := xs ?s1 @ [[]], ys := ys ?s1 @ [[]] \<rparr>, [], True)"
    by (rule pgd_filter_all_success [where x = x]) (use assms in simp_all)
  have ne: "length dl \<noteq> 0" using assms(1,3) by simp
  show ?thesis
    using assms(6-9) ne
    by (simp add: pgd_step_def Let_def f [unfolded assms(9), simplified] assms(9)
        bind_err_def update_times_def)
qed

lemma pgd_gather_single:
  assumes "successes s = [m]"
  shows "pgd_gather s = Inr (hd (xs s), hd (deltas s @ [cur_delta s]))"
  using assms by (simp add: pgd_gather_def bind_err_def)

text \<open>
  When the first success check marks every example of a non-empty batch, the loop breaks
  in its first iteration, before the update block, and the initial delta is returned.
\<close>

lemma perturb_iterative_first_check_all:
  assumes "x \<noteq> []" and "0 < step_count" and "length y = length x"
    and "dl = (case delta_init of None \<Rightarrow> map (map (\<lambda>v. 0)) x | Some d \<Rightarrow> d)"
    and "length dl = length x"
    and "length (lb x y dl None) = length x"
    and "f (pr (tensor_add x dl)) y = Inr (map (\<lambda>b. True) x)"
  shows "perturb_iterative T x y pr step_count e ss lb gp delta_init p cb (Some f) =
           Inr (case cb of None \<Rightarrow> tensor_add x dl | Some b \<Rightarrow> clamp (tensor_add x dl) b,
                1)"
proof -
  obtain n where n: "step_count = Suc n"
    using assms(2) by (cases step_count) simp_all
  let ?A = "\<lparr> predict = pr, eps = e, step_size = ss, loss_backward = lb, grad_pre = gp,
              p_order = p, clip = cb, is_success_for_stopping = Some f, tops = T \<rparr>"
  let ?s0 = "\<lparr> cur_x = x, cur_y = y, cur_delta = dl, delta_grad = None,
               xs = [x], ys = [y], deltas = [], successes = [], origins = [],
               origin = [0 ..< length x], forward_passes = 0 \<rparr>"
  let ?s1 = "\<lparr> cur_x = [], cur_y = [], cur_delta = [], delta_grad = None,
               xs = [x, []], ys = [y, []], deltas = [dl],
               successes = [map (\<lambda>b. True) x], origins = [[]],
               origin = [], forward_passes = Suc 0 \<rparr>"
  have step: "pgd_step ?A ?s0 = Inr (?s1, True)"
    by (rule pgd_first_step_all_success [where x = x and y = y and dl = dl and lb = lb
          and f = f and pr = pr])
      (use assms(1,3,5,6,7) in simp_all)
  have loop: "pgd_loop ?A step_count ?s0 = Inr (?s1, True)"
    by (simp add: n step bind_err_def)
  have gather: "pgd_gather ?s1 = Inr (x, dl)"
    by (simp add: pgd_gather_single [where m = "map (\<lambda>b. True) x"])
  show ?thesis
    unfolding perturb_iterative_def Let_def assms(4) [symmetric] loop
    by (simp add: bind_err_def gather)
qed

lemma pgd_update_p12:
  assumes "p_order A = PNum 1 \<or> p_order A = PNum 2"
    and "grad_pre A = GPName ''sign'' \<or> grad_pre A = GPName ''normalize''"
  shows "pgd_update A g s = Inl NotImplementedError"
  using assms by (auto simp: pgd_update_def apply_grad_preprocessing_def bind_err_def)

lemma pgd_step_p12_no_stop:
  assumes "p_order A = PNum 1 \<or> p_order A = PNum 2"
    and "grad_pre A = GPName ''sign'' \<or> grad_pre A = GPName ''normalize''"
    and "is_success_for_stopping A = None"
  shows "pgd_step A s = Inl NotImplementedError"
  using assms(3)
  by (simp add: pgd_step_def Let_def bind_err_def pgd_update_p12 [OF assms(1,2)])

lemma pgd_step_p12_not_all:
  assumes "p_order A = PNum 1 \<or> p_order A = PNum 2"
    and "grad_pre A = GPName ''sign'' \<or> grad_pre A = GPName ''normalize''"
    and "is_success_for_stopping A = Some f"
    and "f (predict A (tensor_add (cur_x s) (cur_delta s))) (cur_y s) = Inr m"
    and "length (origin s) = length m" and "length (cur_x s) = length m"
    and "length (cur_y s) = length m" and "length (cur_delta s) = length m"
    and "length (loss_backward A (cur_x s) (cur_y s) (cur_delta s) (delta_grad s)) = length m"
    and "\<not> (m \<noteq> [] \<and> list_all id m)"
  shows "pgd_step A s = Inl NotImplementedError"
proof (cases "list_all id (map Not m)")
  case True
  then show ?thesis
    using assms(3,4)
    by (simp add: pgd_step_def Let_def bind_err_def pgd_filter_def
        pgd_update_p12 [OF assms(1,2)])
next
  case False
  then have "m \<noteq> []" by auto
  with assms(10) have na: "\<not> list_all id m" by simp
  show ?thesis
    using assms(3-9) False na
    by (simp add: pgd_step_def Let_def bind_err_def pgd_filter_def mask_select_def
        pgd_update_p12 [OF assms(1,2)])
qed

lemma all_true_mask:
  "list_all id m \<Longrightarrow> length m = length x \<Longrightarrow> m = map (\<lambda>b. True) x"
proof (induction m arbitrary: x)
  case Nil
  then show ?case by simp
next
  case (Cons b m)
  then show ?case by (cases x) simp_all
qed

section \<open>The claims\<close>

text \<open>
  C1. The claim: constructing an instance of a subclass of \<open>Attack\<close> that does not override
  \<open>_perturb\<close> raises \<open>RuntimeError\<close> in the constructor. The code does not: the guard
  compares the class of bound methods with a function object, which are never equal, so
  for every such subclass the constructor returns an instance, and the missing override
  shows only later, when \<open>perturb\<close> reaches the base \<open>_perturb\<close> and raises
  \<open>NotImplementedError\<close>.
\<close>

theorem Attack_init_accepts_missing_override:
  "(case Attack_init dl \<lparr> class_name = n, perturb_override = None \<rparr> m l cb s g of
      Inl e \<Rightarrow> False
    | Inr a \<Rightarrow> Attack_perturb a x (Some y) = Inl NotImplementedError)"
  by (simp add: Attack_init_Inr Attack_perturb_def Attack_perturb_step_def bind_err_def)

text \<open>
  C2. The claim: with the default predicted-label function, \<open>perturb(x)\<close> without a label
  derives the label as the hard prediction of the model and goes on with it. The code
  does not: the default \<open>_predict_hard(predict, x)\<close> is called with the single argument
  \<open>x\<close>, so for every attack class and every input the call raises \<open>TypeError\<close> before
  the model is run; likewise when \<open>_predict_hard\<close> is passed explicitly, as the
  constructors of the subclasses do.
\<close>

theorem perturb_default_label_raises_TypeError:
  "(case Attack_init dl c m l cb s None of
      Inl e \<Rightarrow> False
    | Inr a \<Rightarrow> Attack_perturb a x None = Inl TypeError)
   \<and> (case Attack_init dl c m l cb s (Some (LabelFn2 predict_hard)) of
        Inl e \<Rightarrow> False
      | Inr a \<Rightarrow> Attack_perturb a x None = Inl TypeError)"
  by (simp add: Attack_init_Inr Attack_perturb_def bind_err_def)

text \<open>
  C3. The claim: two structurally distinct transformation chains, such as permutations
  built with two different seeds over one dataset, never have the same identifier. The
  code does not keep the seed: the modifier of \<open>permute\<close> is the literal text
  \<open>permute({seed})\<close>, so the identifiers of two permuted views of one dataset agree for
  all seeds. On the three-element dataset the views for the seeds 1 and 2 have the same
  identifier and different first elements.
\<close>

theorem permute_identifier_ignores_seed:
  "dataset_identifier (permute h r D s1 kw) = dataset_identifier (permute h r D s2 kw)
   \<and> dataset_identifier (permute sum_hash shift_permutation three_examples 1 no_kwargs)
       = ''D.permute({seed})''
   \<and> dataset_identifier (permute sum_hash shift_permutation three_examples 2 no_kwargs)
       = ''D.permute({seed})''
   \<and> getitem (permute sum_hash shift_permutation three_examples 1 no_kwargs) 0 = Inr 11
   \<and> getitem (permute sum_hash shift_permutation three_examples 2 no_kwargs) 0 = Inr 12"
proof -
  have a: "dataset_identifier (permute h r D s1 kw) = dataset_identifier (permute h r D s2 kw)"
    by (simp add: permute_def SubDataset_init_def Dataset_init_def dataset_identifier_def
        Let_def)
  have b: "dataset_identifier (permute sum_hash shift_permutation three_examples 1 no_kwargs)
             = ''D.permute({seed})''"
    by code_simp
  have c: "dataset_identifier (permute sum_hash shift_permutation three_examples 2 no_kwargs)
             = ''D.permute({seed})''"
    by code_simp
  have d: "getitem (permute sum_hash shift_permutation three_examples 1 no_kwargs) 0 = Inr 11"
    by code_simp
  have e: "getitem (permute sum_hash shift_permutation three_examples 2 no_kwargs) 0 = Inr 12"
    by code_simp
  from a b c d e show ?thesis by blast
qed

text \<open>
  C4, as stated, fails: with \<open>p = 2\<close>, one step and early stopping on a predicate that
  marks the single example successful, the call returns instead of raising.
\<close>

theorem perturb_iterative_p2_returns_counterexample:
  "perturb_iterative clamp_ops [[0]] [0] id_model 1 1 1 zero_backward (GPName ''sign'') None
     (PNum 2) (Some (0, 1)) (Some always_success) = Inr ([[0]], 1)"
proof -
  have "perturb_iterative clamp_ops [[0]] [0] id_model 1 1 1 zero_backward (GPName ''sign'')
          None (PNum 2) (Some (0, 1)) (Some always_success) =
        Inr (case Some (0, 1) of None \<Rightarrow> tensor_add [[0]] [[0]]
             | Some b \<Rightarrow> clamp (tensor_add [[0]] [[0]]) b, 1)"
    by (rule perturb_iterative_first_check_all)
      (simp_all add: always_success_def zero_backward_def)
  then show ?thesis by (simp add: clamp_def tensor_add_def)
qed

text \<open>
  C4, amended. For \<open>p\<close> equal to 1 or 2, at least one step, gradient preprocessing
  \<open>'sign'\<close> or \<open>'normalize'\<close> and well-shaped inputs (label, delta, gradient and success
  mask of the batch length), \<open>perturb_iterative\<close> never applies a projection: it raises
  \<open>NotImplementedError\<close> in the update block of its first iteration, unless early
  stopping is enabled and the first success check marks every example of a non-empty
  batch, in which case it returns the input plus the initial delta, clipped, after that
  one iteration.
\<close>

theorem perturb_iterative_p12_no_projection:
  assumes "p = PNum 1 \<or> p = PNum 2" and "0 < step_count"
    and "gp = GPName ''sign'' \<or> gp = GPName ''normalize''"
    and "dl = (case delta_init of None \<Rightarrow> map (map (\<lambda>v. 0)) x | Some d \<Rightarrow> d)"
    and "case is_s of None \<Rightarrow> True
         | Some f \<Rightarrow> (\<exists>m. f (pr (tensor_add x dl)) y = Inr m \<and> length m = length x)
                     \<and> length y = length x \<and> length dl = length x
                     \<and> length (lb x y dl None) = length x"
  shows "perturb_iterative T x y pr step_count e ss lb gp delta_init p cb is_s =
           (case is_s of
              None \<Rightarrow> Inl NotImplementedError
            | Some f \<Rightarrow>
                if x \<noteq> [] \<and> f (pr (tensor_add x dl)) y = Inr (map (\<lambda>b. True) x)
                then Inr (case cb of None \<Rightarrow> tensor_add x dl
                          | Some b \<Rightarrow> clamp (tensor_add x dl) b, 1)
                else Inl NotImplementedError)"
proof -
  obtain n where n: "step_count = Suc n"
    using assms(2) by (cases step_count) simp_all
  let ?A = "\<lparr> predict = pr, eps = e, step_size = ss, loss_backward = lb, grad_pre = gp,
              p_order = p, clip = cb, is_success_for_stopping = is_s, tops = T \<rparr>"
  let ?s0 = "\<lparr> cur_x = x, cur_y = y, cur_delta = dl, delta_grad = None,
               xs = [x], ys = [y], deltas = [], successes = [], origins = [],
               origin = [0 ..< length x], forward_passes = 0 \<rparr>"
  have pA: "p_order ?A = PNum 1 \<or> p_order ?A = PNum 2" using assms(1) by simp
  have gA: "grad_pre ?A = GPName ''sign'' \<or> grad_pre ?A = GPName ''normalize''"
    using assms(3) by simp
  show ?thesis
  proof (cases is_s)
    case None
    have "pgd_step ?A ?s0 = Inl NotImplementedError"
      by (rule pgd_step_p12_no_stop [OF pA gA]) (simp add: None)
    then have "pgd_loop ?A step_count ?s0 = Inl NotImplementedError"
      by (simp add: n bind_err_def)
    then show ?thesis
      unfolding perturb_iterative_def Let_def assms(4) [symmetric]
      by (simp add: bind_err_def None)
  next
    case (Some f)
    from assms(5) Some obtain m where m: "f (pr (tensor_add x dl)) y = Inr m"
      and lm: "length m = length x" and ly: "length y = length x"
      and ld: "length dl = length x" and lg: "length (lb x y dl None) = length x"
      by auto
    show ?thesis
    proof (cases "x \<noteq> [] \<and> f (pr (tensor_add x dl)) y = Inr (map (\<lambda>b. True) x)")
      case True
      then have xne: "x \<noteq> []"
        and fs: "f (pr (tensor_add x dl)) y = Inr (map (\<lambda>b. True) x)"
        by simp_all
      have "perturb_iterative T x y pr step_count e ss lb gp delta_init p cb (Some f) =
                   Inr (case cb of None \<Rightarrow> tensor_add x dl
                        | Some b \<Rightarrow> clamp (tensor_add x dl) b, 1)"
        by (rule perturb_iterative_first_check_all [where f = f and x = x and y = y
              and dl = dl and lb = lb and pr = pr and delta_init = delta_init])
          (rule xne assms(2) ly assms(4) ld lg fs)+
      with True Some show ?thesis by simp
    next
      case False
      have nall: "\<not> (m \<noteq> [] \<and> list_all id m)"
      proof
        assume h: "m \<noteq> [] \<and> list_all id m"
        then have "m = map (\<lambda>b. True) x"
          using lm by (simp add: all_true_mask)
        moreover from h lm have "x \<noteq> []" by auto
        ultimately show False using False m by simp
      qed
      have "pgd_step ?A ?s0 = Inl NotImplementedError"
        by (rule pgd_step_p12_not_all [OF pA gA, where f = f and m = m])
          (use Some m lm ly ld lg nall in simp_all)
      then have "pgd_loop ?A step_count ?s0 = Inl NotImplementedError"
        by (simp add: n bind_err_def)
      then have "perturb_iterative T x y pr step_count e ss lb gp delta_init p cb is_s =
                   Inl NotImplementedError"
        unfolding perturb_iterative_def Let_def assms(4) [symmetric]
        by (simp add: bind_err_def)
      with False Some show ?thesis by simp
    qed
  qed
qed

text \<open>
  The amended C4 on a batch of two examples with \<open>p = 2\<close> and early stopping on the
  untargeted success predicate: the first check marks the second example only, and the
  update block raises.
\<close>

theorem perturb_iterative_p12_no_projection_witness:
  "(PNum 2 = PNum 1 \<or> PNum 2 = PNum 2) \<and> (0::nat) < 3
   \<and> classification_untargeted_is_sucess (id_model (tensor_add [[0, 1], [1, 0]] [[0, 0], [0, 0]]))
        [1, 1] = Inr [False, True]
   \<and> perturb_iterative clamp_ops [[0, 1], [1, 0]] [1, 1] id_model 3 1 1 zero_backward
        (GPName ''sign'') None (PNum 2) (Some (0, 1))
        (Some classification_untargeted_is_sucess) = Inl NotImplementedError"
proof -
  have h1: "PNum 2 = PNum 1 \<or> PNum 2 = PNum 2" by simp
  have h2: "(0::nat) < 3" by simp
  have h3: "GPName ''sign'' = GPName ''sign'' \<or> GPName ''sign'' = GPName ''normalize''"
    by simp
  have h4: "[[0, 0], [0, 0]] =
            (case None of None \<Rightarrow> map (map (\<lambda>v. 0)) [[0, 1], [1, 0 :: real]] | Some d \<Rightarrow> d)"
    by simp
  have m: "classification_untargeted_is_sucess
             (id_model (tensor_add [[0, 1], [1, 0]] [[0, 0], [0, 0]])) [1, 1]
           = Inr [False, True]"
    by (simp add: classification_untargeted_is_sucess_def bind_err_def argmax_dim1_def
        argmax_row_def tensor_ne_def id_model_def tensor_add_def)
  have h5: "case Some classification_untargeted_is_sucess of
              None \<Rightarrow> True
            | Some f \<Rightarrow>
                (\<exists>m. f (id_model (tensor_add [[0, 1], [1, 0]] [[0, 0], [0, 0]])) [1, 1] = Inr m
                      \<and> length m = length [[0, 1], [1, 0 :: real]])
                \<and> length [1, 1 :: int] = length [[0, 1], [1, 0 :: real]]
                \<and> length [[0, 0], [0, 0 :: real]] = length [[0, 1], [1, 0 :: real]]
                \<and> length (zero_backward [[0, 1], [1, 0]] [1, 1] [[0, 0], [0, 0]] None)
                    = length [[0, 1], [1, 0 :: real]]"
    by (simp add: m zero_backward_def)
  show ?thesis
    using h1 h2 m
      perturb_iterative_p12_no_projection [where p = "PNum 2" and step_count = 3
        and gp = "GPName ''sign''" and dl = "[[0, 0], [0, 0]]" and delta_init = None
        and x = "[[0, 1], [1, 0]]" and y = "[1, 1]" and pr = id_model
        and lb = zero_backward and is_s = "Some classification_untargeted_is_sucess"
        and T = clamp_ops and e = 1 and ss = 1 and cb = "Some (0, 1)",
        OF h1 h2 h3 h4 h5]
    by simp
qed

text \<open>
  C5. The claim: with \<open>step_count = 0\<close> the call returns the input with the initial
  delta applied once and clipped, without raising. The code raises for every input: the
  loop body never runs, the \<open>else\<close> clause of the loop executes \<open>step += 1\<close>, and
  \<open>step\<close> was never bound.
\<close>

theorem perturb_iterative_zero_steps_raises:
  "perturb_iterative T x y pr 0 e ss lb gp delta_init p cb is_s = Inl UnboundLocalError"
  by (simp add: perturb_iterative_def bind_err_def)

text \<open>
  C6, as stated for every input batch, fails on the empty batch: the success mask is
  empty, the guard \<open>if not fail.all()\<close> skips the early-stopping block, the update runs,
  and \<open>update_times\<close> divides by the batch length.
\<close>

theorem early_stop_empty_batch_counterexample:
  "perturb_iterative clamp_ops [] [] id_model 1 1 1 zero_backward (GPName ''sign'') None PInf
     (Some (0, 1)) (Some always_success) = Inl ZeroDivisionError"
  by (simp add: perturb_iterative_def bind_err_def pgd_step_def pgd_filter_def
      always_success_def pgd_update_def apply_grad_preprocessing_def update_times_def
      tensor_add_def tensor_scale_def tensor_sign_def clamp_ops_def clamp_def tensor_sub_def
      id_model_def zero_backward_def)

text \<open>
  C6, amended. For every non-empty input batch (with label, delta and gradient of the
  batch length) and every \<open>step_count\<close> of at least 1, if early stopping is enabled
  with a success predicate that marks every example at the first check, then
  \<open>perturb_iterative\<close> enters exactly one iteration and returns the input plus the
  initial delta, clipped into the clip bounds; this holds for every norm order and every
  gradient preprocessing.
\<close>

theorem early_stop_after_one_iteration:
  assumes "x \<noteq> []" and "0 < step_count" and "length y = length x"
    and "dl = (case delta_init of None \<Rightarrow> map (map (\<lambda>v. 0)) x | Some d \<Rightarrow> d)"
    and "length dl = length x"
    and "length (lb x y dl None) = length x"
    and "f (pr (tensor_add x dl)) y = Inr (map (\<lambda>b. True) x)"
  shows "perturb_iterative T x y pr step_count e ss lb gp delta_init p cb (Some f) =
           Inr (case cb of None \<Rightarrow> tensor_add x dl | Some b \<Rightarrow> clamp (tensor_add x dl) b,
                1)"
  by (rule perturb_iterative_first_check_all [where f = f and x = x and y = y
        and dl = dl and lb = lb and pr = pr and delta_init = delta_init])
    (rule assms)+

text \<open>
  The amended C6 with forty steps on a one-example batch: one iteration is entered.
\<close>

theorem early_stop_after_one_iteration_witness:
  "[[1 / 2]] \<noteq> ([] :: tensor) \<and> (0::nat) < 40
   \<and> always_success (id_model (tensor_add [[1 / 2]] [[0]])) [0] = Inr (map (\<lambda>b. True) [[1 / 2 :: real]])
   \<and> perturb_iterative clamp_ops [[1 / 2]] [0] id_model 40 1 1 zero_backward (GPName ''sign'')
        None PInf (Some (0, 1)) (Some always_success) = Inr ([[1 / 2]], 1)"
proof -
  have h1: "[[1 / 2]] \<noteq> ([] :: tensor)" by simp
  have h2: "(0::nat) < 40" by simp
  have h3: "length [0 :: int] = length [[1 / 2 :: real]]" by simp
  have h4: "[[0]] = (case None of None \<Rightarrow> map (map (\<lambda>v. 0)) [[1 / 2 :: real]] | Some d \<Rightarrow> d)"
    by simp
  have h5: "length [[0 :: real]] = length [[1 / 2 :: real]]" by simp
  have h6: "length (zero_backward [[1 / 2]] [0] [[0]] None) = length [[1 / 2 :: real]]"
    by (simp add: zero_backward_def)
  have h7: "always_success (id_model (tensor_add [[1 / 2]] [[0]])) [0]
            = Inr (map (\<lambda>b. True) [[1 / 2 :: real]])"
    by (simp add: always_success_def)
  show ?thesis
    using h1 h2 h7
      early_stop_after_one_iteration [where x = "[[1 / 2]]" and step_count = 40
        and y = "[0]" and dl = "[[0]]" and delta_init = None and lb = zero_backward
        and f = always_success and pr = id_model and T = clamp_ops and e = 1 and ss = 1
        and gp = "GPName ''sign''" and p = PInf and cb = "Some (0, 1)",
        OF h1 h2 h3 h4 h5 h6 h7]
    by (simp add: clamp_def tensor_add_def)
qed

text \<open>
  C7. The claim: the Carlini-Wagner attack configured with one binary-search step and one
  iteration returns a tensor of the shape of its input without raising. No such attack
  can be configured: for every argument list the constructor raises, with
  \<open>NotImplementedError\<close> when a loss is passed, and otherwise with \<open>TypeError\<close> from
  the call \<open>get_carlini_loss()\<close>, which passes none of the two required arguments.
\<close>

theorem CarliniWagnerL2Attack_init_always_raises:
  "CarliniWagnerL2Attack_init dl body m l cb is_s gpl cfg =
     Inl (case l of None \<Rightarrow> TypeError | Some f \<Rightarrow> NotImplementedError)"
  by (simp add: CarliniWagnerL2Attack_init_def bind_err_def split: option.splits)

text \<open>
  C8. The claim: for every dataset and every requested length greater than its length,
  \<open>sample(length, replace=False)\<close> fails with \<open>ValueError\<close>. The constructor does
  carry the statement \<open>raise ValueError("A sample without replacement cannot be larger
  than the original dataset.")\<close> for exactly this input, but the statement
  \<open>assert replace or length <= len(dataset)\<close> stands before it and fails first: the
  call raises \<open>AssertionError\<close>, and the \<open>ValueError\<close> is reached only when the
  interpreter runs with assertions disabled.
\<close>

theorem sample_too_long_fails:
  assumes "len D < n"
  shows "sample dbg rp rr D n False seed kw
           = Inl (if dbg then AssertionError else ValueError)"
  using assms by (simp add: sample_def SampleDataset_init_def Let_def)

text \<open>
  C8 at a sample of four without replacement from the dataset of three, under the
  interpreter's default mode: the call raises \<open>AssertionError\<close>.
\<close>

theorem sample_too_long_fails_witness:
  "len three_examples < 4
   \<and> sample True shift_permutation shift_permutation three_examples 4 False 53 no_kwargs
       = Inl AssertionError"
proof -
  have h: "len three_examples < 4" by (simp add: three_examples_def)
  show ?thesis
    using h sample_too_long_fails [OF h, of True shift_permutation shift_permutation 53
        no_kwargs]
    by simp
qed

text \<open>
  C9. For a per-example disk cache whose file for index \<open>idx\<close> (and field, if any) fails
  to deserialize, while the wrapped dataset yields the example: the read removes that one
  file, recomputes the value from the wrapped dataset, writes it to the same path and
  returns it; these are the only two disk operations, every other file is as before,
  and no error reaches the caller. Without separate fields this is what reading a valid
  index \<open>idx\<close> of the cache does.
\<close>

theorem corrupt_cache_file_self_heals:
  assumes "files d (get_cache_path self idx field) = Some Corrupt"
    and "getitem (data self) idx = Inr example"
    and "(case field of None \<Rightarrow> Inr example | Some f \<Rightarrow> get_field self example f) = Inr v"
  shows "get_example_or_field self d idx field =
           (Inr v, d\<lparr> files := (files d)(get_cache_path self idx field \<mapsto> Pickled v),
                       ops := ops d @ [Remove (get_cache_path self idx field),
                                       Write (get_cache_path self idx field) v] \<rparr>)
         \<and> (field = None \<and> \<not> separate_fields self \<and> 0 \<le> idx \<and> idx < int (len (data self))
            \<longrightarrow> hdd_getitem self d idx =
                  (Inr (Whole v),
                   d\<lparr> files := (files d)(get_cache_path self idx None \<mapsto> Pickled v),
                      ops := ops d @ [Remove (get_cache_path self idx None),
                                      Write (get_cache_path self idx None) v] \<rparr>))"
proof -
  have a: "get_example_or_field self d idx field =
           (Inr v, d\<lparr> files := (files d)(get_cache_path self idx field \<mapsto> Pickled v),
                       ops := ops d @ [Remove (get_cache_path self idx field),
                                       Write (get_cache_path self idx field) v] \<rparr>)"
    using assms
    by (simp add: get_example_or_field_def Let_def os_remove_def pickle_dump_def)
  show ?thesis
    using a by (auto simp: hdd_getitem_def hdd_get_example_def Let_def)
qed

text \<open>
  C9 on the three-element cache whose file for index 1 is corrupt: the file is rewritten
  with the recomputed value 11, and the file for index 0 is untouched.
\<close>

theorem corrupt_cache_file_self_heals_witness:
  "files damaged_disk (get_cache_path three_cached 1 None) = Some Corrupt
   \<and> getitem (data three_cached) 1 = Inr 11
   \<and> get_example_or_field three_cached damaged_disk 1 None =
       (Inr 11, \<lparr> files = [''c/D.cache_hdd/0.p'' \<mapsto> Pickled 10,
                            ''c/D.cache_hdd/1.p'' \<mapsto> Pickled 11],
                  ops = [Remove ''c/D.cache_hdd/1.p'', Write ''c/D.cache_hdd/1.p'' 11] \<rparr>)
   \<and> hdd_getitem three_cached damaged_disk 1 =
       (Inr (Whole 11), \<lparr> files = [''c/D.cache_hdd/0.p'' \<mapsto> Pickled 10,
                                    ''c/D.cache_hdd/1.p'' \<mapsto> Pickled 11],
                          ops = [Remove ''c/D.cache_hdd/1.p'',
                                 Write ''c/D.cache_hdd/1.p'' 11] \<rparr>)"
proof -
  have p: "get_cache_path three_cached 1 None = ''c/D.cache_hdd/1.p''"
    by (simp add: get_cache_path_def three_cached_def str_int_def digit_char_def)
  have h1: "files damaged_disk (get_cache_path three_cached 1 None) = Some Corrupt"
    by (simp add: p damaged_disk_def)
  have h2: "getitem (data three_cached) 1 = Inr 11"
    by (simp add: three_cached_def three_examples_def getitem_def)
  have h3: "(case None of None \<Rightarrow> Inr 11 | Some f \<Rightarrow> get_field three_cached 11 f)
            = Inr (11::int)"
    by simp
  have v: "\<not> separate_fields three_cached \<and> (1::int) < int (len (data three_cached))"
    by (simp add: three_cached_def three_examples_def)
  show ?thesis
    using h1 h2 v corrupt_cache_file_self_heals [OF h1 h2 h3]
    by (simp add: p damaged_disk_def)
qed

text \<open>
  C10. The targeted and the untargeted success predicate return the same result on every
  prediction and label tensor, namely \<open>argmax(pred, dim=1) != label\<close>; the targeted one
  does not test equality with the target: a prediction that hits the target label 1 is
  reported as no success.
\<close>

theorem targeted_success_same_as_untargeted:
  "classification_targeted_is_sucess pred label = classification_untargeted_is_sucess pred label
   \<and> classification_targeted_is_sucess pred label
       = bind_err (argmax_dim1 pred) (\<lambda>a. tensor_ne a label)
   \<and> classification_targeted_is_sucess [[0, 1]] [1] = Inr [False]"
  by (simp add: classification_targeted_is_sucess_def classification_untargeted_is_sucess_def
      bind_err_def argmax_dim1_def argmax_row_def tensor_ne_def)

end
